theory Spec2Isabelle
  imports Main "HOL-Library.AList"
begin

section \<open>Values, answers and the flow state\<close>

text \<open>
  The answer value of \<open>process_response\<close> is typed \<open>Any\<close>: whatever the JSON body
  carried. \<open>pyval\<close> is the JSON value as Python sees it (floating-point numbers left out:
  no operation below does arithmetic on an answer).
\<close>

datatype pyval =
    VNone
  | VBool bool
  | VInt int
  | VStr string
  | VList "pyval list"
  | VDict "(string \<times> pyval) list"

text \<open>Python's truth value of an object, as used by \<open>if x and ...\<close> and \<open>if x:\<close>.\<close>

fun truthy :: "pyval \<Rightarrow> bool" where
  "truthy VNone = False"
| "truthy (VBool b) = b"
| "truthy (VInt n) = (n \<noteq> 0)"
| "truthy (VStr s) = (s \<noteq> [])"
| "truthy (VList xs) = (xs \<noteq> [])"
| "truthy (VDict kvs) = (kvs \<noteq> [])"

text \<open>Lists and dicts are unhashable: using one as a dictionary key raises TypeError.\<close>

fun hashable :: "pyval \<Rightarrow> bool" where
  "hashable (VList xs) = False"
| "hashable (VDict kvs) = False"
| "hashable v = True"

text \<open>\<open>x in values\<close> for a list \<open>values\<close> of str: only a str can equal a member.\<close>

fun py_in :: "pyval \<Rightarrow> string list \<Rightarrow> bool" where
  "py_in (VStr s) values = (s \<in> set values)"
| "py_in v values = False"

datatype error = IndexError | TypeError

type_synonym time = int

text \<open>The dict stored per question id by \<open>process_response\<close>.\<close>

record answer =
  ans_value :: pyval
  is_other :: bool
  other_text :: "string option"
  timestamp :: time

record note_entry =
  note_text :: string
  note_timestamp :: time

text \<open>
  A Python dict is an association list with distinct keys in insertion order;
  \<open>d[k] = v\<close> is \<open>AList.update k v d\<close> (overwrite in place, or append), \<open>k in d\<close> and
  \<open>d[k]\<close> are \<open>map_of d k\<close>, \<open>len(d)\<close> is \<open>length d\<close>.
\<close>

type_synonym responses_t = "(string \<times> answer) list"

datatype question_type = SINGLE_CHOICE | MULTIPLE_CHOICE | TEXT_INPUT | RANGE

text \<open>
  Category and question descriptors. The display-only fields (question text, option
  labels, icons, the "other" prompt, the estimated time) are left out; ids, option
  values, flags and conditions are as in \<open>_initialize_categories\<close> and
  \<open>_initialize_questions\<close>.
\<close>

record category =
  cat_id :: string
  cat_name :: string
  cat_description :: string
  cat_is_optional :: bool

record question =
  q_id :: string
  q_type :: question_type
  q_options :: "string list"
  has_other :: bool
  q_is_optional :: bool
  condition :: "(string \<times> string list) list option"

record flow =
  current_category_index :: nat
  current_question_index :: nat
  responses :: responses_t
  additional_notes :: "(string \<times> note_entry list) list"
  skipped_categories :: "string list"
  start_time :: time

section \<open>The catalog\<close>

definition mk_category :: "string \<Rightarrow> string \<Rightarrow> string \<Rightarrow> bool \<Rightarrow> category" where
  "mk_category i n d opt =
     \<lparr>cat_id = i, cat_name = n, cat_description = d, cat_is_optional = opt\<rparr>"

definition categories :: "category list" where
  "categories =
    [mk_category ''profile'' ''Profile'' ''Understanding your situation'' False,
     mk_category ''budget'' ''Budget'' ''Financial comfort zone'' False,
     mk_category ''property'' ''Property'' ''Your dream property'' False,
     mk_category ''location'' ''Location'' ''Perfect neighborhood'' False,
     mk_category ''timeline'' ''Timeline'' ''Your property journey'' False,
     mk_category ''lifestyle'' ''Lifestyle'' ''Your lifestyle needs'' False,
     mk_category ''investment'' ''Investment'' ''Investment goals'' True,
     mk_category ''priorities'' ''Priorities'' ''Deal makers & breakers'' False,
     mk_category ''decision'' ''Decision'' ''How you make decisions'' False,
     mk_category ''contact'' ''Contact'' ''How to reach you'' False]"

definition mk_question ::
  "string \<Rightarrow> question_type \<Rightarrow> string list \<Rightarrow> bool \<Rightarrow> bool \<Rightarrow>
   (string \<times> string list) list option \<Rightarrow> question" where
  "mk_question i t opts ho opt c =
     \<lparr>q_id = i, q_type = t, q_options = opts, has_other = ho, q_is_optional = opt,
      condition = c\<rparr>"

definition profile_questions :: "question list" where
  "profile_questions =
    [mk_question ''profile_1'' SINGLE_CHOICE
       [''already_here'', ''planning_move'', ''investing_abroad''] True False None,
     mk_question ''profile_2'' SINGLE_CHOICE
       [''first_time'', ''owns_property'', ''previous_owner''] False False None,
     mk_question ''profile_3'' SINGLE_CHOICE
       [''single'', ''couple'', ''family'', ''investment''] True False None]"

definition budget_questions :: "question list" where
  "budget_questions =
    [mk_question ''budget_1'' SINGLE_CHOICE
       [''under_1m'', ''1m_2m'', ''2m_3.5m'', ''3.5m_5m'', ''5m_plus'', ''flexible'']
       True False None,
     mk_question ''budget_2'' SINGLE_CHOICE [''cash'', ''mortgage'', ''mix''] False False None,
     mk_question ''budget_3'' SINGLE_CHOICE
       [''pre_approved'', ''planning'', ''need_guidance'', ''private''] False False
       (Some [(''budget_2'', [''mortgage'', ''mix''])])]"

definition property_questions :: "question list" where
  "property_questions =
    [mk_question ''property_1'' SINGLE_CHOICE
       [''apartment'', ''villa'', ''townhouse'', ''open''] True False None,
     mk_question ''property_2'' SINGLE_CHOICE
       [''studio'', ''1br'', ''2br'', ''3br'', ''4br'', ''5br_plus''] False False None,
     mk_question ''property_3'' SINGLE_CHOICE
       [''new_only'', ''relatively_new'', ''age_flexible''] False False None]"

definition location_questions :: "question list" where
  "location_questions =
    [mk_question ''location_1'' SINGLE_CHOICE
       [''beachside'', ''urban'', ''family_community'', ''quiet_green''] True False None,
     mk_question ''location_2'' SINGLE_CHOICE
       [''difc_downtown'', ''marina_jlt'', ''abu_dhabi'', ''wfh'', ''flexible'', ''multiple'']
       True False None]"

definition timeline_questions :: "question list" where
  "timeline_questions =
    [mk_question ''timeline_1'' SINGLE_CHOICE
       [''asap'', ''3_months'', ''3_6_months'', ''6_12_months'', ''planning''] False False None,
     mk_question ''timeline_2'' SINGLE_CHOICE
       [''lease_ending'', ''family_growing'', ''investment_timing'', ''new_to_dubai'',
        ''planned''] True False None]"

definition lifestyle_questions :: "question list" where
  "lifestyle_questions =
    [mk_question ''lifestyle_1'' SINGLE_CHOICE
       [''very_important'', ''somewhat'', ''not_factor''] False False
       (Some [(''profile_3'', [''family''])]),
     mk_question ''lifestyle_2'' MULTIPLE_CHOICE
       [''pool'', ''gym'', ''kids_area'', ''pet_friendly'', ''views'', ''garden'']
       True True None]"

definition investment_questions :: "question list" where
  "investment_questions =
    [mk_question ''investment_1'' SINGLE_CHOICE
       [''rental'', ''appreciation'', ''holiday'', ''future_residence''] True False
       (Some [(''profile_3'', [''investment''])]),
     mk_question ''investment_2'' SINGLE_CHOICE
       [''yield_key'', ''nice_to_have'', ''not_important''] False False
       (Some [(''profile_3'', [''investment''])])]"

definition priorities_questions :: "question list" where
  "priorities_questions =
    [mk_question ''priorities_1'' MULTIPLE_CHOICE
       [''location'', ''value'', ''view'', ''community'', ''feeling''] True False None,
     mk_question ''priorities_2'' MULTIPLE_CHOICE
       [''noisy'', ''no_parking'', ''needs_work'', ''bad_location'', ''over_budget'']
       True True None]"

definition decision_questions :: "question list" where
  "decision_questions =
    [mk_question ''decision_1'' SINGLE_CHOICE
       [''quick_decision'', ''partner_discuss'', ''family_approval'', ''think_about'']
       False False None,
     mk_question ''decision_2'' SINGLE_CHOICE
       [''in_person'', ''virtual_first'', ''both'', ''details_first''] False False None]"

definition contact_questions :: "question list" where
  "contact_questions =
    [mk_question ''contact_1'' MULTIPLE_CHOICE
       [''whatsapp'', ''email'', ''call'', ''all''] False False None,
     mk_question ''contact_2'' SINGLE_CHOICE
       [''morning'', ''afternoon'', ''evening'', ''weekends'', ''anytime''] False False None]"

text \<open>\<open>self.questions\<close>: the dict from category id to the category's question list.\<close>

definition questions :: "(string \<times> question list) list" where
  "questions =
    [(''profile'', profile_questions),
     (''budget'', budget_questions),
     (''property'', property_questions),
     (''location'', location_questions),
     (''timeline'', timeline_questions),
     (''lifestyle'', lifestyle_questions),
     (''investment'', investment_questions),
     (''priorities'', priorities_questions),
     (''decision'', decision_questions),
     (''contact'', contact_questions)]"

section \<open>ConversationFlow\<close>

text \<open>\<open>__init__\<close>; the clock reading \<open>datetime.now()\<close> is the argument \<open>now\<close>.\<close>

definition init_flow :: "time \<Rightarrow> flow" where
  "init_flow now =
     \<lparr>current_category_index = 0, current_question_index = 0, responses = [],
      additional_notes = [], skipped_categories = [], start_time = now\<rparr>"

definition restart_flow :: "flow \<Rightarrow> time \<Rightarrow> flow" where
  "restart_flow s now =
     s\<lparr>current_category_index := 0, current_question_index := 0, start_time := now\<rparr>"

text \<open>
  The \<open>for key, values in question["condition"].items()\<close> loop of
  \<open>get_current_question\<close>: a key that is not in \<open>responses\<close> is passed over; a key whose
  stored value is not in \<open>values\<close> sets \<open>condition_met = False\<close> and breaks. Every
  entry of \<open>responses\<close> is the dict that \<open>process_response\<close> stored, so the stored value
  is its \<open>"value"\<close> field.
\<close>

fun condition_met :: "responses_t \<Rightarrow> (string \<times> string list) list \<Rightarrow> bool" where
  "condition_met rs [] = True"
| "condition_met rs ((key, values) # rest) =
     (case map_of rs key of
        Some a \<Rightarrow> if \<not> py_in (ans_value a) values then False else condition_met rs rest
      | None \<Rightarrow> condition_met rs rest)"

text \<open>
  The \<open>while self.current_question_index < len(questions)\<close> loop: the result is the
  question returned (None when the loop runs off the end) and the final question index.
\<close>

function scan_questions :: "responses_t \<Rightarrow> question list \<Rightarrow> nat \<Rightarrow> question option \<times> nat" where
  "scan_questions rs qs i =
     (if i < length qs then
        (case condition (qs ! i) of
           Some c \<Rightarrow> if \<not> condition_met rs c then scan_questions rs qs (i + 1)
                     else (Some (qs ! i), i)
         | None \<Rightarrow> (Some (qs ! i), i))
      else (None, i))"
  by pat_completeness auto
termination
  by (relation "measure (\<lambda>(rs, qs, i). length qs - i)") auto

declare scan_questions.simps [simp del]

definition next_category :: "flow \<Rightarrow> flow" where
  "next_category s =
     s\<lparr>current_category_index := current_category_index s + 1, current_question_index := 0\<rparr>"

function get_current_question :: "flow \<Rightarrow> question option \<times> flow" where
  "get_current_question s =
     (if current_category_index s \<ge> length categories then (None, s)
      else
        (case map_of questions (cat_id (categories ! current_category_index s)) of
           Some qs \<Rightarrow>
             (if fst (scan_questions (responses s) qs (current_question_index s)) \<noteq> None
              then (fst (scan_questions (responses s) qs (current_question_index s)),
                    s\<lparr>current_question_index :=
                        snd (scan_questions (responses s) qs (current_question_index s))\<rparr>)
              else get_current_question (next_category s))
         | None \<Rightarrow> get_current_question (next_category s)))"
  by pat_completeness auto
termination
  by (relation "measure (\<lambda>s. length categories - current_category_index s)")
     (auto simp: next_category_def)

declare get_current_question.simps [simp del]

text \<open>
  \<open>process_response\<close>. The answer is stored and the question index incremented before
  \<open>self.categories[self.current_category_index]\<close> is read; when that read is out of
  range the IndexError leaves the object in the state reached so far, which the error
  result carries.
\<close>

definition process_response ::
  "flow \<Rightarrow> string \<Rightarrow> pyval \<Rightarrow> bool \<Rightarrow> string option \<Rightarrow> time \<Rightarrow> (error \<times> flow) + flow" where
  "process_response s question_id response isother othertext now =
     (let s1 = s\<lparr>responses :=
                   AList.update question_id
                     \<lparr>ans_value = response, is_other = isother, other_text = othertext,
                      timestamp = now\<rparr> (responses s)\<rparr>;
          s2 = s1\<lparr>current_question_index := current_question_index s1 + 1\<rparr>
      in if current_category_index s2 < length categories then
           (let category_id = cat_id (categories ! current_category_index s2) in
            if current_question_index s2 \<ge>
                 length (case map_of questions category_id of Some qs \<Rightarrow> qs | None \<Rightarrow> [])
            then Inr (next_category s2)
            else Inr s2)
         else Inl (IndexError, s2))"

definition add_category_note :: "flow \<Rightarrow> string \<Rightarrow> string \<Rightarrow> time \<Rightarrow> flow" where
  "add_category_note s category_id n now =
     s\<lparr>additional_notes :=
         AList.update category_id
           ((case map_of (additional_notes s) category_id of Some ns \<Rightarrow> ns | None \<Rightarrow> [])
            @ [\<lparr>note_text = n, note_timestamp = now\<rparr>])
           (additional_notes s)\<rparr>"

text \<open>
  The \<open>for i, cat in enumerate(self.categories)\<close> loop of \<open>skip_category\<close>: the index of
  the first category with the given id, where the loop breaks.
\<close>

fun find_category :: "string \<Rightarrow> category list \<Rightarrow> nat \<Rightarrow> nat option" where
  "find_category category_id [] i = None"
| "find_category category_id (cat # cats) i =
     (if cat_id cat = category_id then Some i else find_category category_id cats (i + 1))"

definition skip_category :: "flow \<Rightarrow> string \<Rightarrow> flow" where
  "skip_category s category_id =
     (let s1 = s\<lparr>skipped_categories := skipped_categories s @ [category_id]\<rparr>
      in case find_category category_id categories 0 of
           Some i \<Rightarrow> if i = current_category_index s1 then next_category s1 else s1
         | None \<Rightarrow> s1)"

definition is_complete :: "flow \<Rightarrow> bool" where
  "is_complete s = (current_category_index s \<ge> length categories)"

record timeline_entry =
  tl_id :: string
  tl_name :: string
  tl_status :: string
  tl_is_optional :: bool

fun timeline_from :: "flow \<Rightarrow> category list \<Rightarrow> nat \<Rightarrow> timeline_entry list" where
  "timeline_from s [] i = []"
| "timeline_from s (cat # cats) i =
     \<lparr>tl_id = cat_id cat, tl_name = cat_name cat,
      tl_status =
        (if i < current_category_index s then ''completed''
         else if i = current_category_index s then ''active''
         else if cat_id cat \<in> set (skipped_categories s) then ''skipped''
         else ''upcoming''),
      tl_is_optional = cat_is_optional cat\<rparr> # timeline_from s cats (i + 1)"

definition get_timeline_status :: "flow \<Rightarrow> timeline_entry list" where
  "get_timeline_status s = timeline_from s categories 0"

record summary =
  sum_responses :: responses_t
  sum_additional_notes :: "(string \<times> note_entry list) list"
  sum_skipped_categories :: "string list"
  sum_is_complete :: bool

text \<open>\<open>get_summary\<close>, without the floating-point \<open>completion_time\<close>.\<close>

definition get_summary :: "flow \<Rightarrow> summary" where
  "get_summary s =
     \<lparr>sum_responses = responses s, sum_additional_notes = additional_notes s,
      sum_skipped_categories = skipped_categories s, sum_is_complete = is_complete s\<rparr>"

section \<open>Sequences of calls\<close>

text \<open>
  The operations a caller can invoke on one flow object. \<open>apply_call\<close> is the state of
  the object after the call, whether the call returned or raised; the read-only
  operations and the categorizer leave it as it is.
\<close>

datatype call =
    Restart time
  | CurrentQuestion
  | SubmitAnswer string pyval bool "string option" time
  | AddNote string string time
  | SkipCategory string
  | Progress
  | Timeline
  | IsComplete
  | Summary
  | Categorize

fun apply_call :: "flow \<Rightarrow> call \<Rightarrow> flow" where
  "apply_call s (Restart now) = restart_flow s now"
| "apply_call s CurrentQuestion = snd (get_current_question s)"
| "apply_call s (SubmitAnswer question_id response isother othertext now) =
     (case process_response s question_id response isother othertext now of
        Inr s' \<Rightarrow> s'
      | Inl (e, s') \<Rightarrow> s')"
| "apply_call s (AddNote category_id n now) = add_category_note s category_id n now"
| "apply_call s (SkipCategory category_id) = skip_category s category_id"
| "apply_call s c = s"

definition run :: "flow \<Rightarrow> call list \<Rightarrow> flow" where
  "run s cs = foldl apply_call s cs"

fun is_restart :: "call \<Rightarrow> bool" where
  "is_restart (Restart now) = True"
| "is_restart c = False"

section \<open>UserCategorization\<close>

text \<open>\<open>responses.get(key, {}).get("value")\<close>: None when the key is missing.\<close>

definition get_value :: "responses_t \<Rightarrow> string \<Rightarrow> pyval" where
  "get_value rs key = (case map_of rs key of Some a \<Rightarrow> ans_value a | None \<Rightarrow> VNone)"

text \<open>
  \<open>table.get(key, default)\<close> on a dict with str keys: hashing an unhashable key raises
  TypeError; a hashable key that is not a str equals no key of the table.
\<close>

fun dict_get :: "(string \<times> int) list \<Rightarrow> pyval \<Rightarrow> int \<Rightarrow> error + int" where
  "dict_get table (VStr k) d = Inr (case map_of table k of Some n \<Rightarrow> n | None \<Rightarrow> d)"
| "dict_get table (VList xs) d = Inl TypeError"
| "dict_get table (VDict kvs) d = Inl TypeError"
| "dict_get table v d = Inr d"

definition timeline_scores :: "(string \<times> int) list" where
  "timeline_scores =
     [(''asap'', 30), (''3_months'', 25), (''3_6_months'', 15), (''6_12_months'', 10),
      (''planning'', 5)]"

definition decision_scores :: "(string \<times> int) list" where
  "decision_scores =
     [(''quick_decision'', 10), (''partner_discuss'', 7), (''family_approval'', 5),
      (''think_about'', 3)]"

definition calculate_lead_score :: "responses_t \<Rightarrow> error + int" where
  "calculate_lead_score rs =
     (let score0 = 0;
          timeline_response = get_value rs ''timeline_1''
      in case dict_get timeline_scores timeline_response 0 of
           Inl e \<Rightarrow> Inl e
         | Inr t \<Rightarrow>
     (let score1 = score0 + t;
          budget_response = get_value rs ''budget_1'';
          score2 = (if truthy budget_response \<and> budget_response \<noteq> VStr ''flexible''
                    then score1 + 20
                    else if budget_response = VStr ''flexible'' then score1 + 10
                    else score1);
          payment_method = get_value rs ''budget_2'';
          bank_status = get_value rs ''budget_3'';
          score3 = (if payment_method = VStr ''cash'' then score2 + 15
                    else if bank_status = VStr ''pre_approved'' then score2 + 15
                    else if py_in payment_method [''mortgage'', ''mix'']
                            \<and> bank_status = VStr ''planning'' then score2 + 10
                    else if py_in payment_method [''mortgage'', ''mix''] then score2 + 5
                    else score2);
          property_type = get_value rs ''property_1'';
          bedrooms = get_value rs ''property_2'';
          score4 = (if truthy property_type \<and> property_type \<noteq> VStr ''open''
                    then score3 + 8 else score3);
          score5 = (if truthy bedrooms then score4 + 7 else score4);
          decision = get_value rs ''decision_1''
      in case dict_get decision_scores decision 0 of
           Inl e \<Rightarrow> Inl e
         | Inr d \<Rightarrow>
     (let score6 = score5 + d;
          total_responses = int (length rs);
          score7 = (if total_responses \<ge> 20 then score6 + 10
                    else if total_responses \<ge> 15 then score6 + 8
                    else if total_responses \<ge> 10 then score6 + 5
                    else score6 + 3)
      in Inr (min 100 score7))))"

record buyer_type =
  bt_type :: string
  bt_label :: string
  bt_description :: string
  bt_priority :: string
  bt_follow_up :: string

definition determine_buyer_type :: "int \<Rightarrow> responses_t \<Rightarrow> buyer_type" where
  "determine_buyer_type lead_score rs =
     (if lead_score \<ge> 80 then
        \<lparr>bt_type = ''serious_buyer'', bt_label = ''Serious Buyer'',
         bt_description = ''Ready to purchase, clear requirements, financing sorted'',
         bt_priority = ''high'', bt_follow_up = ''immediate''\<rparr>
      else if lead_score \<ge> 60 then
        \<lparr>bt_type = ''active_looker'', bt_label = ''Active Looker'',
         bt_description = ''Actively searching, some clarity needed'',
         bt_priority = ''medium-high'', bt_follow_up = ''within_24_hours''\<rparr>
      else if lead_score \<ge> 40 then
        \<lparr>bt_type = ''early_explorer'', bt_label = ''Early Explorer'',
         bt_description = ''Researching options, longer timeline'',
         bt_priority = ''medium'', bt_follow_up = ''within_week''\<rparr>
      else
        \<lparr>bt_type = ''info_seeker'', bt_label = ''Information Seeker'',
         bt_description = ''Just browsing, gathering information'',
         bt_priority = ''low'', bt_follow_up = ''nurture_campaign''\<rparr>)"

record persona =
  p_type :: string
  p_label :: string
  key_needs :: "string list"

definition family_focused :: persona where
  "family_focused =
     \<lparr>p_type = ''family_focused'', p_label = ''Family-Focused Buyer'',
      key_needs = [''schools'', ''safe_community'', ''family_amenities'']\<rparr>"

definition investment_minded :: persona where
  "investment_minded =
     \<lparr>p_type = ''investment_minded'', p_label = ''Investment-Minded'',
      key_needs = [''roi_potential'', ''rental_yield'', ''location_growth'']\<rparr>"

definition luxury_seeker :: persona where
  "luxury_seeker =
     \<lparr>p_type = ''luxury_seeker'', p_label = ''Luxury Seeker'',
      key_needs = [''premium_locations'', ''high_end_amenities'', ''exclusivity'']\<rparr>"

definition first_timer :: persona where
  "first_timer =
     \<lparr>p_type = ''first_timer'', p_label = ''First-Time Buyer'',
      key_needs = [''guidance'', ''education'', ''trusted_advisor'']\<rparr>"

definition value_hunter :: persona where
  "value_hunter =
     \<lparr>p_type = ''value_hunter'', p_label = ''Value Hunter'',
      key_needs = [''affordable_options'', ''payment_plans'', ''emerging_areas'']\<rparr>"

definition upgrader :: persona where
  "upgrader =
     \<lparr>p_type = ''upgrader'', p_label = ''Property Upgrader'',
      key_needs = [''better_location'', ''more_space'', ''lifestyle_upgrade'']\<rparr>"

definition general_buyer :: persona where
  "general_buyer =
     \<lparr>p_type = ''general_buyer'', p_label = ''General Buyer'',
      key_needs = [''suitable_property'', ''fair_price'', ''good_location'']\<rparr>"

text \<open>
  \<open>_identify_persona\<close>: every predicate that holds appends its persona to the list
  \<open>personas\<close>, in the order of the source; the first entry is returned.
\<close>

definition identify_persona :: "responses_t \<Rightarrow> persona" where
  "identify_persona rs =
     (let who_living = get_value rs ''profile_3'';
          first_time = get_value rs ''profile_2'';
          budget = get_value rs ''budget_1'';
          property_type = get_value rs ''property_1'';
          schools = get_value rs ''lifestyle_1'';
          investment_goal = get_value rs ''investment_1'';
          personas0 = [];
          personas1 = (if who_living = VStr ''family''
                          \<or> py_in schools [''very_important'', ''somewhat'']
                       then personas0 @ [family_focused] else personas0);
          personas2 = (if who_living = VStr ''investment'' \<or> truthy investment_goal
                       then personas1 @ [investment_minded] else personas1);
          personas3 = (if py_in budget [''3.5m_5m'', ''5m_plus'']
                          \<and> property_type = VStr ''villa''
                       then personas2 @ [luxury_seeker] else personas2);
          personas4 = (if first_time = VStr ''first_time''
                       then personas3 @ [first_timer] else personas3);
          personas5 = (if py_in budget [''under_1m'', ''1m_2m'']
                          \<and> who_living \<noteq> VStr ''investment''
                       then personas4 @ [value_hunter] else personas4);
          personas6 = (if first_time = VStr ''owns_property''
                       then personas5 @ [upgrader] else personas5)
      in case personas6 of p # ps \<Rightarrow> p | [] \<Rightarrow> general_buyer)"

record urgency =
  u_level :: string
  u_label :: string
  u_action :: string
  u_reason :: pyval

definition determine_urgency :: "responses_t \<Rightarrow> urgency" where
  "determine_urgency rs =
     (let timeline = get_value rs ''timeline_1'';
          reason = get_value rs ''timeline_2'';
          high_urgency_reasons = [''lease_ending'', ''new_to_dubai''];
          immediate_timelines = [''asap'', ''3_months'']
      in if py_in timeline immediate_timelines \<or> py_in reason high_urgency_reasons then
           \<lparr>u_level = ''high'', u_label = ''High Urgency'', u_action = ''immediate_attention'',
            u_reason = reason\<rparr>
         else if timeline = VStr ''3_6_months'' then
           \<lparr>u_level = ''moderate'', u_label = ''Moderate Urgency'',
            u_action = ''regular_follow_up'', u_reason = reason\<rparr>
         else
           \<lparr>u_level = ''low'', u_label = ''Low Urgency'', u_action = ''nurture_campaign'',
            u_reason = reason\<rparr>)"

definition identify_service_needs :: "responses_t \<Rightarrow> string list" where
  "identify_service_needs rs =
     (let services0 = [];
          payment_method = get_value rs ''budget_2'';
          bank_status = get_value rs ''budget_3'';
          services1 = (if py_in payment_method [''mortgage'', ''mix''] then
                         (if bank_status = VStr ''need_guidance''
                          then services0 @ [''mortgage_assistance'']
                          else if bank_status = VStr ''planning''
                          then services0 @ [''bank_introduction'']
                          else services0)
                       else services0);
          first_time = get_value rs ''profile_2'';
          services2 = (if first_time = VStr ''first_time''
                       then services1 @ [''full_guidance''] @ [''legal_assistance'']
                       else services1);
          viewing_pref = get_value rs ''decision_2'';
          services3 = (if viewing_pref = VStr ''virtual_first''
                       then services2 @ [''virtual_tours'']
                       else if viewing_pref = VStr ''in_person''
                       then services2 @ [''property_viewings'']
                       else services2);
          services4 = (if get_value rs ''profile_3'' = VStr ''investment''
                       then services3 @ [''investment_analysis''] @ [''rental_management'']
                       else services3)
      in if services4 = []
         then services4 @ [''property_matching''] @ [''viewing_arrangement'']
         else services4)"

record recommendations =
  agent_type :: string
  initial_action :: string
  properties_to_show :: string
  follow_up_strategy :: string
  key_talking_points :: "string list"

text \<open>\<open>sub in s\<close> on str: \<open>sub\<close> occurs in \<open>s\<close> as a contiguous substring.\<close>

fun str_startswith :: "string \<Rightarrow> string \<Rightarrow> bool" where
  "str_startswith s [] = True"
| "str_startswith [] (p # ps) = False"
| "str_startswith (c # cs) (p # ps) = (c = p \<and> str_startswith cs ps)"

fun str_contains :: "string \<Rightarrow> string \<Rightarrow> bool" where
  "str_contains [] sub = (sub = [])"
| "str_contains (c # cs) sub = (str_startswith (c # cs) sub \<or> str_contains cs sub)"

definition generate_recommendations ::
  "buyer_type \<Rightarrow> persona \<Rightarrow> string list \<Rightarrow> recommendations" where
  "generate_recommendations buyer_ty pers service_needs =
     \<lparr>agent_type =
        (if str_contains (p_type pers) ''investment_minded'' then ''Investment specialist''
         else if str_contains (p_type pers) ''luxury_seeker'' then ''Luxury property expert''
         else if str_contains (p_type pers) ''family_focused'' then ''Family homes specialist''
         else ''General property consultant''),
      initial_action =
        (if bt_type buyer_ty = ''serious_buyer'' then ''Call immediately and arrange viewings''
         else if bt_type buyer_ty = ''active_looker'' then ''Send curated property selection''
         else ''Send welcome email with market guide''),
      properties_to_show =
        (if bt_type buyer_ty = ''serious_buyer'' then ''5-7 best matches, ready to visit''
         else if bt_type buyer_ty = ''active_looker'' then ''3-5 strong options''
         else ''2-3 examples to gauge interest''),
      follow_up_strategy = bt_follow_up buyer_ty,
      key_talking_points =
        (if p_type pers = ''family_focused'' then
           [''School proximity and quality'', ''Safe, family-friendly communities'',
            ''Parks and recreational facilities'']
         else if p_type pers = ''investment_minded'' then
           [''ROI and rental yields'', ''Growth potential areas'',
            ''Developer reputation and track record'']
         else if p_type pers = ''first_timer'' then
           [''Step-by-step buying process'', ''Ownership laws and regulations'',
            ''Hidden costs and fees'']
         else
           [''Property features and amenities'', ''Location advantages'',
            ''Value proposition''])\<rparr>"

record categorization =
  lead_score :: int
  buyer_type :: buyer_type
  persona :: persona
  urgency_level :: urgency
  service_needs :: "string list"
  recommendations :: recommendations
  categorized_at :: time

text \<open>
  \<open>categorize_user\<close>: the lead score is computed first, so an exception raised there
  is the outcome of the whole call. \<open>additional_notes\<close> and \<open>completion_info\<close> are
  accepted and not read.
\<close>

definition categorize_user ::
  "responses_t \<Rightarrow> (string \<times> note_entry list) list \<Rightarrow> summary \<Rightarrow> time \<Rightarrow>
   error + categorization" where
  "categorize_user rs notes completion_info now =
     (case calculate_lead_score rs of
        Inl e \<Rightarrow> Inl e
      | Inr score \<Rightarrow>
          (let buyer_ty = determine_buyer_type score rs;
               pers = identify_persona rs;
               urg = determine_urgency rs;
               needs = identify_service_needs rs;
               recs = generate_recommendations buyer_ty pers needs
           in Inr \<lparr>lead_score = score, buyer_type = buyer_ty, persona = pers,
                   urgency_level = urg, service_needs = needs, recommendations = recs,
                   categorized_at = now\<rparr>))"

text \<open>What one call appends to \<open>skipped_categories\<close>.\<close>

fun skipped_by :: "call \<Rightarrow> string list" where
  "skipped_by (SkipCategory category_id) = [category_id]"
| "skipped_by c = []"

section \<open>The cursor walk of \<open>get_current_question\<close>\<close>

lemma condition_met_iff:
  "condition_met rs c \<longleftrightarrow>
     (\<forall>(key, values) \<in> set c. \<forall>a. map_of rs key = Some a \<longrightarrow> py_in (ans_value a) values)"
  by (induction rs c rule: condition_met.induct) (auto split: option.splits)

lemma scan_questions_Some:
  "scan_questions rs qs i = (Some q, j) \<Longrightarrow>
     i \<le> j \<and> j < length qs \<and> q = qs ! j \<and>
     (\<forall>c. condition q = Some c \<longrightarrow> condition_met rs c)"
proof (induction rs qs i rule: scan_questions.induct)
  case (1 rs qs i)
  show ?case
  proof (cases "i < length qs")
    case False
    with "1.prems" show ?thesis by (simp add: scan_questions.simps)
  next
    case True
    show ?thesis
    proof (cases "condition (qs ! i)")
      case None
      with True "1.prems" show ?thesis by (auto simp: scan_questions.simps)
    next
      case (Some c)
      show ?thesis
      proof (cases "condition_met rs c")
        case True
        with \<open>i < length qs\<close> Some "1.prems" show ?thesis
          by (auto simp: scan_questions.simps)
      next
        case False
        with \<open>i < length qs\<close> Some "1.prems"
        have "scan_questions rs qs (i + 1) = (Some q, j)"
          by (simp add: scan_questions.simps)
        with "1.IH" [OF \<open>i < length qs\<close> Some] False show ?thesis by auto
      qed
    qed
  qed
qed

lemma scan_questions_None:
  "scan_questions rs qs i = (None, j) \<Longrightarrow> i \<le> j \<and> j = max i (length qs)"
proof (induction rs qs i rule: scan_questions.induct)
  case (1 rs qs i)
  show ?case
  proof (cases "i < length qs")
    case False
    with "1.prems" show ?thesis by (simp add: scan_questions.simps)
  next
    case True
    show ?thesis
    proof (cases "condition (qs ! i)")
      case None
      with True "1.prems" show ?thesis by (auto simp: scan_questions.simps)
    next
      case (Some c)
      show ?thesis
      proof (cases "condition_met rs c")
        case True
        with \<open>i < length qs\<close> Some "1.prems" show ?thesis
          by (auto simp: scan_questions.simps)
      next
        case False
        with \<open>i < length qs\<close> Some "1.prems"
        have "scan_questions rs qs (i + 1) = (None, j)"
          by (simp add: scan_questions.simps)
        with "1.IH" [OF \<open>i < length qs\<close> Some] False \<open>i < length qs\<close> show ?thesis by auto
      qed
    qed
  qed
qed

lemma scan_questions_fixed:
  assumes "scan_questions rs qs i = (Some q, j)"
  shows "scan_questions rs qs j = (Some q, j)"
proof -
  from scan_questions_Some [OF assms]
  have j: "j < length qs" and q: "q = qs ! j"
    and c: "\<forall>c. condition q = Some c \<longrightarrow> condition_met rs c" by auto
  show ?thesis
  proof (cases "condition (qs ! j)")
    case None
    with j q show ?thesis by (simp add: scan_questions.simps)
  next
    case (Some c')
    with c q have "condition_met rs c'" by simp
    with j q Some show ?thesis by (simp add: scan_questions.simps)
  qed
qed


lemma gcq_done:
  "length categories \<le> current_category_index s \<Longrightarrow> get_current_question s = (None, s)"
  by (simp add: get_current_question.simps)

lemma gcq_found:
  assumes "current_category_index s < length categories"
    and "map_of questions (cat_id (categories ! current_category_index s)) = Some qs"
    and "scan_questions (responses s) qs (current_question_index s) = (Some q, j)"
  shows "get_current_question s = (Some q, s\<lparr>current_question_index := j\<rparr>)"
  using assms by (subst get_current_question.simps) simp

lemma gcq_induct [case_names complete found advance]:
  assumes complete: "\<And>s. length categories \<le> current_category_index s \<Longrightarrow> P s"
    and found: "\<And>s qs q j. current_category_index s < length categories \<Longrightarrow>
        map_of questions (cat_id (categories ! current_category_index s)) = Some qs \<Longrightarrow>
        scan_questions (responses s) qs (current_question_index s) = (Some q, j) \<Longrightarrow> P s"
    and advance: "\<And>s. current_category_index s < length categories \<Longrightarrow>
        get_current_question s = get_current_question (next_category s) \<Longrightarrow>
        P (next_category s) \<Longrightarrow> P s"
  shows "P s"
proof (induction s rule: get_current_question.induct)
  case (1 s)
  show ?case
  proof (cases "length categories \<le> current_category_index s")
    case True
    then show ?thesis by (rule complete)
  next
    case False
    then have lt: "current_category_index s < length categories" by simp
    show ?thesis
    proof (cases "map_of questions (cat_id (categories ! current_category_index s))")
      case None
      have eq: "get_current_question s = get_current_question (next_category s)"
        using False None by (subst get_current_question.simps) simp
      have "P (next_category s)" using False None by (rule "1.IH"(1))
      with lt eq show ?thesis by (rule advance)
    next
      case (Some qs)
      obtain r j where scan: "scan_questions (responses s) qs (current_question_index s) = (r, j)"
        by (cases "scan_questions (responses s) qs (current_question_index s)")
      show ?thesis
      proof (cases r)
        case None
        have eq: "get_current_question s = get_current_question (next_category s)"
          using False Some scan None by (subst get_current_question.simps) simp
        have "\<not> fst (scan_questions (responses s) qs (current_question_index s)) \<noteq> None"
          using scan None by simp
        with False Some have "P (next_category s)" by (rule "1.IH"(2))
        with lt eq show ?thesis by (rule advance)
      next
        case (Some q)
        with scan have "scan_questions (responses s) qs (current_question_index s) = (Some q, j)"
          by simp
        with lt \<open>map_of questions _ = Some qs\<close> show ?thesis by (rule found)
      qed
    qed
  qed
qed

lemma gcq_frame:
  "get_current_question s = (q, s') \<Longrightarrow>
     responses s' = responses s \<and> additional_notes s' = additional_notes s \<and>
     skipped_categories s' = skipped_categories s \<and> start_time s' = start_time s"
proof (induction s arbitrary: q s' rule: gcq_induct)
  case (complete s)
  then show ?case by (simp add: gcq_done)
next
  case (found s qs x j)
  then show ?case by (auto simp: gcq_found)
next
  case (advance s)
  from advance.prems advance.hyps(2) have "get_current_question (next_category s) = (q, s')"
    by simp
  from advance.IH [OF this] show ?case by (simp add: next_category_def)
qed

lemma gcq_cursor:
  "get_current_question s = (q, s') \<Longrightarrow>
     current_category_index s < current_category_index s' \<or>
     (current_category_index s' = current_category_index s \<and>
      current_question_index s \<le> current_question_index s')"
proof (induction s arbitrary: q s' rule: gcq_induct)
  case (complete s)
  then show ?case by (simp add: gcq_done)
next
  case (found s qs x j)
  from scan_questions_Some [OF found(3)] have "current_question_index s \<le> j" by simp
  with found show ?case by (auto simp: gcq_found)
next
  case (advance s)
  from advance.prems advance.hyps(2) have "get_current_question (next_category s) = (q, s')"
    by simp
  from advance.IH [OF this] show ?case by (auto simp: next_category_def)
qed

lemma gcq_idem:
  "get_current_question s = (q, s') \<Longrightarrow> get_current_question s' = (q, s')"
proof (induction s arbitrary: q s' rule: gcq_induct)
  case (complete s)
  then show ?case by (simp add: gcq_done)
next
  case (found s qs x j)
  from found have eq: "q = Some x" "s' = s\<lparr>current_question_index := j\<rparr>"
    by (auto simp: gcq_found)
  have "scan_questions (responses s') qs (current_question_index s') = (Some x, j)"
    using scan_questions_fixed [OF found(3)] eq by simp
  moreover have "current_category_index s' < length categories"
    "map_of questions (cat_id (categories ! current_category_index s')) = Some qs"
    using found eq by simp_all
  ultimately have "get_current_question s' = (Some x, s'\<lparr>current_question_index := j\<rparr>)"
    by (rule gcq_found [rotated 2])
  with eq show ?case by simp
next
  case (advance s)
  from advance.prems advance.hyps(2) have "get_current_question (next_category s) = (q, s')"
    by simp
  then show ?case by (rule advance.IH)
qed

lemma gcq_condition:
  "get_current_question s = (Some q, s') \<Longrightarrow> condition q = Some c \<Longrightarrow>
     condition_met (responses s) c"
proof (induction s arbitrary: q s' rule: gcq_induct)
  case (complete s)
  then show ?case by (simp add: gcq_done)
next
  case (found s qs x j)
  from found have "q = x" by (auto simp: gcq_found)
  with scan_questions_Some [OF found(3)] found.prems(2) show ?case by simp
next
  case (advance s)
  from advance.prems(1) advance.hyps(2)
  have "get_current_question (next_category s) = (Some q, s')" by simp
  from advance.IH [OF this advance.prems(2)] show ?case by (simp add: next_category_def)
qed

lemma gcq_None_iff:
  "get_current_question s = (q, s') \<Longrightarrow> (q = None) = is_complete s'"
proof (induction s arbitrary: q s' rule: gcq_induct)
  case (complete s)
  then show ?case by (simp add: gcq_done is_complete_def)
next
  case (found s qs x j)
  then show ?case by (auto simp: gcq_found is_complete_def)
next
  case (advance s)
  from advance.prems advance.hyps(2) have "get_current_question (next_category s) = (q, s')"
    by simp
  then show ?case by (rule advance.IH)
qed

lemma gcq_bound:
  "get_current_question s = (q, s') \<Longrightarrow>
     current_category_index s' \<le> max (current_category_index s) (length categories)"
proof (induction s arbitrary: q s' rule: gcq_induct)
  case (complete s)
  then show ?case by (simp add: gcq_done)
next
  case (found s qs x j)
  then show ?case by (auto simp: gcq_found)
next
  case (advance s)
  from advance.prems advance.hyps(2) have "get_current_question (next_category s) = (q, s')"
    by simp
  from advance.IH [OF this] advance.hyps(1) show ?case by (auto simp: next_category_def)
qed

section \<open>Concrete sessions\<close>

lemmas catalog_defs = categories_def questions_def mk_category_def mk_question_def
  profile_questions_def budget_questions_def property_questions_def location_questions_def
  timeline_questions_def lifestyle_questions_def investment_questions_def
  priorities_questions_def decision_questions_def contact_questions_def

lemmas flow_defs = run_def init_flow_def skip_category_def next_category_def
  process_response_def add_category_note_def restart_flow_def

text \<open>A caller skips the first five categories of a fresh flow.\<close>

lemma run_five_skips:
  "run (init_flow 0)
     [SkipCategory ''profile'', SkipCategory ''budget'', SkipCategory ''property'',
      SkipCategory ''location'', SkipCategory ''timeline''] =
   \<lparr>current_category_index = 5, current_question_index = 0, responses = [],
    additional_notes = [],
    skipped_categories = [''profile'', ''budget'', ''property'', ''location'', ''timeline''],
    start_time = 0\<rparr>"
  by (simp add: flow_defs catalog_defs)

text \<open>A caller answers the profile questions as a family, then skips up to lifestyle.\<close>

lemma run_family_session:
  "run (init_flow 0)
     [SubmitAnswer ''profile_1'' (VStr ''already_here'') False None 1,
      SubmitAnswer ''profile_2'' (VStr ''first_time'') False None 2,
      SubmitAnswer ''profile_3'' (VStr ''family'') False None 3,
      SkipCategory ''budget'', SkipCategory ''property'', SkipCategory ''location'',
      SkipCategory ''timeline''] =
   \<lparr>current_category_index = 5, current_question_index = 0,
    responses =
      [(''profile_1'', \<lparr>ans_value = VStr ''already_here'', is_other = False,
                          other_text = None, timestamp = 1\<rparr>),
       (''profile_2'', \<lparr>ans_value = VStr ''first_time'', is_other = False,
                          other_text = None, timestamp = 2\<rparr>),
       (''profile_3'', \<lparr>ans_value = VStr ''family'', is_other = False,
                          other_text = None, timestamp = 3\<rparr>)],
    additional_notes = [],
    skipped_categories = [''budget'', ''property'', ''location'', ''timeline''],
    start_time = 0\<rparr>"
  by (simp add: flow_defs catalog_defs)

text \<open>A caller skips every category in turn: the flow is complete.\<close>

lemma run_ten_skips:
  "run (init_flow 0)
     [SkipCategory ''profile'', SkipCategory ''budget'', SkipCategory ''property'',
      SkipCategory ''location'', SkipCategory ''timeline'', SkipCategory ''lifestyle'',
      SkipCategory ''investment'', SkipCategory ''priorities'', SkipCategory ''decision'',
      SkipCategory ''contact''] =
   \<lparr>current_category_index = 10, current_question_index = 0, responses = [],
    additional_notes = [],
    skipped_categories =
      [''profile'', ''budget'', ''property'', ''location'', ''timeline'', ''lifestyle'',
       ''investment'', ''priorities'', ''decision'', ''contact''],
    start_time = 0\<rparr>"
  by (simp add: flow_defs catalog_defs)

section \<open>Effects of single calls\<close>

lemma process_response_state:
  "\<exists>s'. (process_response s question_id response isother othertext now = Inr s' \<or>
         process_response s question_id response isother othertext now = Inl (IndexError, s')) \<and>
        current_category_index s \<le> current_category_index s' \<and>
        skipped_categories s' = skipped_categories s \<and>
        additional_notes s' = additional_notes s \<and>
        start_time s' = start_time s"
  by (simp add: process_response_def Let_def next_category_def)

lemma apply_call_skipped:
  "skipped_categories (apply_call s c) = skipped_categories s @ skipped_by c"
proof (cases c)
  case CurrentQuestion
  obtain q s' where r: "get_current_question s = (q, s')"
    by (cases "get_current_question s")
  from gcq_frame [OF r] r CurrentQuestion show ?thesis by simp
next
  case (SubmitAnswer question_id response isother othertext now)
  from process_response_state [of s question_id response isother othertext now]
  show ?thesis using SubmitAnswer by auto
next
  case (SkipCategory category_id)
  then show ?thesis
    by (simp add: skip_category_def Let_def next_category_def split: option.splits)
qed (simp_all add: restart_flow_def add_category_note_def)

lemma run_skipped:
  "skipped_categories (run s cs) = skipped_categories s @ concat (map skipped_by cs)"
  unfolding run_def
  by (induction cs arbitrary: s) (simp_all add: apply_call_skipped)

lemma apply_call_index_mono:
  assumes "\<not> is_restart c"
  shows "current_category_index s \<le> current_category_index (apply_call s c)"
proof (cases c)
  case (Restart now)
  with assms show ?thesis by simp
next
  case CurrentQuestion
  obtain q s' where r: "get_current_question s = (q, s')"
    by (cases "get_current_question s")
  from gcq_cursor [OF r] r CurrentQuestion show ?thesis by auto
next
  case (SubmitAnswer question_id response isother othertext now)
  from process_response_state [of s question_id response isother othertext now]
  show ?thesis using SubmitAnswer by auto
next
  case (SkipCategory category_id)
  then show ?thesis
    by (simp add: skip_category_def Let_def next_category_def split: option.splits)
qed (simp_all add: add_category_note_def)

lemma run_index_mono:
  "\<forall>c \<in> set cs. \<not> is_restart c \<Longrightarrow>
     current_category_index s \<le> current_category_index (run s cs)"
  unfolding run_def
proof (induction cs arbitrary: s)
  case Nil
  show ?case by simp
next
  case (Cons c cs)
  from Cons.prems have "\<not> is_restart c" by simp
  then have "current_category_index s \<le> current_category_index (apply_call s c)"
    by (rule apply_call_index_mono)
  also from Cons.prems have "\<dots> \<le> current_category_index (foldl apply_call (apply_call s c) cs)"
    by (intro Cons.IH) simp
  finally show ?case by simp
qed

section \<open>Properties of the flow\<close>

text \<open>
  What the cursor walk does guarantee about conditions. A question that
  \<open>get_current_question\<close> returns has, for every question id its condition names that
  has an answer in \<open>responses\<close>, a stored value among the allowed values; a question
  whose condition fails is passed over with the question index advanced by one.
\<close>

lemma current_question_present_answer_allowed:
  assumes "get_current_question s = (Some q, s')"
    and "condition q = Some c"
    and "(key, values) \<in> set c"
    and "map_of (responses s) key = Some a"
  shows "py_in (ans_value a) values"
proof -
  from gcq_condition [OF assms(1,2)] have "condition_met (responses s) c" .
  with assms(3,4) show ?thesis unfolding condition_met_iff by blast
qed

lemma scan_questions_skip:
  assumes "i < length qs" and "condition (qs ! i) = Some c" and "\<not> condition_met rs c"
  shows "scan_questions rs qs i = scan_questions rs qs (i + 1)"
  using assms by (subst scan_questions.simps) simp

text \<open>
  A question whose condition names only question ids without an answer is returned all
  the same: the loop over the condition passes over every key that is not in
  \<open>responses\<close>.
\<close>

lemma condition_met_absent:
  "\<forall>(key, values) \<in> set c. map_of rs key = None \<Longrightarrow> condition_met rs c"
  unfolding condition_met_iff by auto

lemma current_question_absent_answers_asked:
  assumes "current_category_index s < length categories"
    and "map_of questions (cat_id (categories ! current_category_index s)) = Some qs"
    and "current_question_index s < length qs"
    and "condition (qs ! current_question_index s) = Some c"
    and "\<forall>(key, values) \<in> set c. map_of (responses s) key = None"
  shows "get_current_question s = (Some (qs ! current_question_index s), s)"
proof -
  from assms(5) have "condition_met (responses s) c" by (rule condition_met_absent)
  with assms(3,4)
  have "scan_questions (responses s) qs (current_question_index s) =
          (Some (qs ! current_question_index s), current_question_index s)"
    by (subst scan_questions.simps) simp
  from gcq_found [OF assms(1,2) this] show ?thesis by simp
qed

text \<open>
  C1 fails on the code. The catalog marks \<open>lifestyle_1\<close> "Only ask families" with the
  condition \<open>profile_3 \<rightarrow> [family]\<close>. After the first five categories of a fresh flow
  are skipped, \<open>profile_3\<close> has no answer, and \<open>get_current_question\<close> returns
  \<open>lifestyle_1\<close> with the cursor left on it, instead of skipping it.
\<close>

theorem current_question_asks_without_referenced_answer:
  "map_of (responses (run (init_flow 0)
     [SkipCategory ''profile'', SkipCategory ''budget'', SkipCategory ''property'',
      SkipCategory ''location'', SkipCategory ''timeline''])) ''profile_3'' = None \<and>
   get_current_question (run (init_flow 0)
     [SkipCategory ''profile'', SkipCategory ''budget'', SkipCategory ''property'',
      SkipCategory ''location'', SkipCategory ''timeline'']) =
     (Some (mk_question ''lifestyle_1'' SINGLE_CHOICE
              [''very_important'', ''somewhat'', ''not_factor''] False False
              (Some [(''profile_3'', [''family''])])),
      \<lparr>current_category_index = 5, current_question_index = 0, responses = [],
       additional_notes = [],
       skipped_categories = [''profile'', ''budget'', ''property'', ''location'', ''timeline''],
       start_time = 0\<rparr>)"
  by (simp add: run_five_skips get_current_question.simps scan_questions.simps catalog_defs)

text \<open>
  The same at the other conditional questions: \<open>budget_3\<close> ("Only ask if needs
  financing") is returned when \<open>budget_2\<close> has no answer.
\<close>

lemma current_question_budget_3_without_budget_2:
  "get_current_question
     \<lparr>current_category_index = 1, current_question_index = 2, responses = [],
      additional_notes = [], skipped_categories = [], start_time = 0\<rparr> =
     (Some (mk_question ''budget_3'' SINGLE_CHOICE
              [''pre_approved'', ''planning'', ''need_guidance'', ''private''] False False
              (Some [(''budget_2'', [''mortgage'', ''mix''])])),
      \<lparr>current_category_index = 1, current_question_index = 2, responses = [],
       additional_notes = [], skipped_categories = [], start_time = 0\<rparr>)"
  by (simp add: get_current_question.simps scan_questions.simps catalog_defs)

text \<open>
  C6: \<open>restart_flow\<close> sets both cursor indices to 0 and the start time to the current
  time, and leaves \<open>responses\<close>, \<open>additional_notes\<close> and \<open>skipped_categories\<close> unchanged.
\<close>

theorem restart_flow_frame:
  "current_category_index (restart_flow s now) = 0 \<and>
   current_question_index (restart_flow s now) = 0 \<and>
   start_time (restart_flow s now) = now \<and>
   responses (restart_flow s now) = responses s \<and>
   additional_notes (restart_flow s now) = additional_notes s \<and>
   skipped_categories (restart_flow s now) = skipped_categories s"
  by (simp add: restart_flow_def)

text \<open>
  C7, as the code has it. In every state reached from a fresh flow by a sequence of calls,
  \<open>skipped_categories\<close> is the list of the ids passed to \<open>skip_category\<close>, in call order,
  one entry per call: duplicates are kept.
\<close>

theorem skipped_categories_is_call_log:
  "skipped_categories (run (init_flow now) cs) = concat (map skipped_by cs)"
  by (simp add: run_skipped init_flow_def)

text \<open>C7 as stated fails: skipping the same category twice leaves two entries.\<close>

theorem skip_category_twice_counterexample:
  "skipped_categories
     (run (init_flow 0) [SkipCategory ''profile'', SkipCategory ''profile''])
     = [''profile'', ''profile''] \<and>
   \<not> distinct (skipped_categories
     (run (init_flow 0) [SkipCategory ''profile'', SkipCategory ''profile'']))"
  by (simp add: flow_defs catalog_defs)

text \<open>
  C8: \<open>get_current_question\<close> is idempotent. Called again on the state the first call
  left, it returns the same question (or None) and leaves that state as it is.
\<close>

theorem current_question_idempotent:
  "get_current_question (snd (get_current_question s)) =
     (fst (get_current_question s), snd (get_current_question s))"
proof -
  obtain q s' where r: "get_current_question s = (q, s')"
    by (cases "get_current_question s")
  from gcq_idem [OF r] r show ?thesis by simp
qed

text \<open>
  C9: \<open>is_complete\<close> is true exactly when the category index has reached the number of
  categories; no call other than a restart decreases the category index, so a complete
  flow stays complete under every sequence of calls without a restart.
\<close>

theorem is_complete_monotone:
  assumes "\<forall>c \<in> set cs. \<not> is_restart c"
  shows "is_complete s = (length categories \<le> current_category_index s) \<and>
         current_category_index s \<le> current_category_index (run s cs) \<and>
         (is_complete s \<longrightarrow> is_complete (run s cs))"
  using run_index_mono [OF assms, of s] by (auto simp: is_complete_def)

text \<open>
  The theorem at the flow completed by ten skips, followed by an answer, a read, a skip
  and a note.
\<close>

theorem is_complete_monotone_witness:
  "\<not> is_restart (SubmitAnswer ''contact_2'' (VStr ''morning'') False None 1) \<and>
   \<not> is_restart CurrentQuestion \<and>
   \<not> is_restart (SkipCategory ''contact'') \<and>
   \<not> is_restart (AddNote ''contact'' ''call me'' 2) \<and>
   is_complete \<lparr>current_category_index = 10, current_question_index = 0, responses = [],
     additional_notes = [], skipped_categories = [], start_time = 0\<rparr> \<and>
   is_complete (run \<lparr>current_category_index = 10, current_question_index = 0, responses = [],
     additional_notes = [], skipped_categories = [], start_time = 0\<rparr>
     [SubmitAnswer ''contact_2'' (VStr ''morning'') False None 1, CurrentQuestion,
      SkipCategory ''contact'', AddNote ''contact'' ''call me'' 2])"
proof -
  let ?cs = "[SubmitAnswer ''contact_2'' (VStr ''morning'') False None 1, CurrentQuestion,
              SkipCategory ''contact'', AddNote ''contact'' ''call me'' 2]"
  let ?s = "\<lparr>current_category_index = 10, current_question_index = 0, responses = [],
     additional_notes = [], skipped_categories = [], start_time = 0\<rparr>"
  have h: "\<forall>c \<in> set ?cs. \<not> is_restart c" by simp
  have c: "is_complete ?s" by (simp add: is_complete_def catalog_defs)
  from is_complete_monotone [OF h, of ?s] c show ?thesis by simp
qed

text \<open>
  C10: \<open>get_current_question\<close> returns for every flow state (both of its loops are
  defined with a termination proof: the question index rises towards the length of the
  question list, the category index towards the length of the catalog), the cursor it
  leaves is not behind the cursor it found, and the category index it leaves is bounded
  by the catalog length (or is the one it found, when that was already beyond it).
\<close>

theorem current_question_moves_forward:
  "\<exists>q s'. get_current_question s = (q, s') \<and>
     (current_category_index s < current_category_index s' \<or>
      (current_category_index s' = current_category_index s \<and>
       current_question_index s \<le> current_question_index s')) \<and>
     current_category_index s' \<le> max (current_category_index s) (length categories)"
proof -
  obtain q s' where r: "get_current_question s = (q, s')"
    by (cases "get_current_question s")
  from gcq_cursor [OF r] gcq_bound [OF r] r show ?thesis by blast
qed

section \<open>Properties of the categorizer\<close>

lemma dict_get_hashable:
  "hashable v \<Longrightarrow> \<exists>n. dict_get table v d = Inr n"
  by (cases v) simp_all

lemma dict_get_unhashable:
  "\<not> hashable v \<Longrightarrow> dict_get table v d = Inl TypeError"
  by (cases v) simp_all

lemma timeline_points_range:
  "dict_get timeline_scores v 0 = Inr t \<Longrightarrow> 0 \<le> t \<and> t \<le> 30"
  by (cases v) (auto simp: timeline_scores_def split: if_splits)

lemma decision_points_range:
  "dict_get decision_scores v 0 = Inr d \<Longrightarrow> 0 \<le> d \<and> d \<le> 10"
  by (cases v) (auto simp: decision_scores_def split: if_splits)

lemma if_add_else: "(if a then x + p else x) = x + (if a then p else (0::int))"
  by simp

lemma if_add_both: "(if a then x + p else x + r) = x + (if a then p else (r::int))"
  by simp

text \<open>The score as the capped sum of its six factors.\<close>

lemma calculate_lead_score_sum:
  assumes t: "dict_get timeline_scores (get_value rs ''timeline_1'') 0 = Inr t"
    and d: "dict_get decision_scores (get_value rs ''decision_1'') 0 = Inr d"
  shows "calculate_lead_score rs = Inr (min 100
     (t
      + (if truthy (get_value rs ''budget_1'') \<and> get_value rs ''budget_1'' \<noteq> VStr ''flexible''
         then 20 else if get_value rs ''budget_1'' = VStr ''flexible'' then 10 else 0)
      + (if get_value rs ''budget_2'' = VStr ''cash'' then 15
         else if get_value rs ''budget_3'' = VStr ''pre_approved'' then 15
         else if py_in (get_value rs ''budget_2'') [''mortgage'', ''mix'']
                 \<and> get_value rs ''budget_3'' = VStr ''planning'' then 10
         else if py_in (get_value rs ''budget_2'') [''mortgage'', ''mix''] then 5 else 0)
      + (if truthy (get_value rs ''property_1'') \<and> get_value rs ''property_1'' \<noteq> VStr ''open''
         then 8 else 0)
      + (if truthy (get_value rs ''property_2'') then 7 else 0)
      + d
      + (if int (length rs) \<ge> 20 then 10 else if int (length rs) \<ge> 15 then 8
         else if int (length rs) \<ge> 10 then 5 else 3)))"
  unfolding calculate_lead_score_def
  by (simp only: t d Let_def sum.case if_add_else if_add_both add_0)

lemma calculate_lead_score_timeline_error:
  "dict_get timeline_scores (get_value rs ''timeline_1'') 0 = Inl e \<Longrightarrow>
     calculate_lead_score rs = Inl e"
  unfolding calculate_lead_score_def by (simp only: Let_def sum.case)

lemma calculate_lead_score_decision_error:
  "dict_get timeline_scores (get_value rs ''timeline_1'') 0 = Inr t \<Longrightarrow>
   dict_get decision_scores (get_value rs ''decision_1'') 0 = Inl e \<Longrightarrow>
     calculate_lead_score rs = Inl e"
  unfolding calculate_lead_score_def by (simp only: Let_def sum.case)

lemma calculate_lead_score_Inr:
  assumes "calculate_lead_score rs = Inr score"
  shows "0 \<le> score \<and> score \<le> 100"
proof -
  obtain t where t: "dict_get timeline_scores (get_value rs ''timeline_1'') 0 = Inr t"
    using assms calculate_lead_score_timeline_error [of rs]
    by (cases "dict_get timeline_scores (get_value rs ''timeline_1'') 0") simp_all
  obtain d where d: "dict_get decision_scores (get_value rs ''decision_1'') 0 = Inr d"
    using assms calculate_lead_score_decision_error [OF t]
    by (cases "dict_get decision_scores (get_value rs ''decision_1'') 0") simp_all
  from timeline_points_range [OF t] have tr: "0 \<le> t" "t \<le> 30" by simp_all
  from decision_points_range [OF d] have dr: "0 \<le> d" "d \<le> 10" by simp_all
  define b :: int where "b = (if truthy (get_value rs ''budget_1'') \<and> get_value rs ''budget_1'' \<noteq> VStr ''flexible''
         then 20 else if get_value rs ''budget_1'' = VStr ''flexible'' then 10 else 0)"
  define f :: int where "f = (if get_value rs ''budget_2'' = VStr ''cash'' then 15
         else if get_value rs ''budget_3'' = VStr ''pre_approved'' then 15
         else if py_in (get_value rs ''budget_2'') [''mortgage'', ''mix'']
                 \<and> get_value rs ''budget_3'' = VStr ''planning'' then 10
         else if py_in (get_value rs ''budget_2'') [''mortgage'', ''mix''] then 5 else 0)"
  define p :: int where "p = (if truthy (get_value rs ''property_1'') \<and> get_value rs ''property_1'' \<noteq> VStr ''open''
         then 8 else 0)"
  define q :: int where "q = (if truthy (get_value rs ''property_2'') then 7 else 0)"
  define e :: int where "e = (if int (length rs) \<ge> 20 then 10 else if int (length rs) \<ge> 15 then 8
         else if int (length rs) \<ge> 10 then 5 else 3)"
  have "calculate_lead_score rs = Inr (min 100 (t + b + f + p + q + d + e))"
    unfolding b_def f_def p_def q_def e_def by (rule calculate_lead_score_sum [OF t d])
  with assms have score: "score = min 100 (t + b + f + p + q + d + e)" by simp
  have "0 \<le> b" "b \<le> 20" by (simp_all add: b_def)
  moreover have "0 \<le> f" "f \<le> 15" by (simp_all add: f_def)
  moreover have "0 \<le> p" "p \<le> 8" by (simp_all add: p_def)
  moreover have "0 \<le> q" "q \<le> 7" by (simp_all add: q_def)
  moreover have "3 \<le> e" "e \<le> 10" by (simp_all add: e_def)
  ultimately show ?thesis using tr dr score by linarith
qed

lemma calculate_lead_score_returns:
  assumes "hashable (get_value rs ''timeline_1'')" "hashable (get_value rs ''decision_1'')"
  shows "\<exists>score. calculate_lead_score rs = Inr score"
proof -
  from dict_get_hashable [OF assms(1)] obtain t
    where t: "dict_get timeline_scores (get_value rs ''timeline_1'') 0 = Inr t" by blast
  from dict_get_hashable [OF assms(2)] obtain d
    where d: "dict_get decision_scores (get_value rs ''decision_1'') 0 = Inr d" by blast
  from calculate_lead_score_sum [OF t d] show ?thesis by blast
qed

text \<open>
  C3: whenever \<open>_calculate_lead_score\<close> computes a score, for any answer set (the empty
  one included), the score is an integer between 0 and 100; and it computes one for every
  answer set whose \<open>timeline_1\<close> and \<open>decision_1\<close> values (None when missing) are
  hashable.
\<close>

theorem lead_score_in_range:
  "(\<forall>score. calculate_lead_score rs = Inr score \<longrightarrow> 0 \<le> score \<and> score \<le> 100) \<and>
   (hashable (get_value rs ''timeline_1'') \<and> hashable (get_value rs ''decision_1'') \<longrightarrow>
      (\<exists>score. calculate_lead_score rs = Inr score))"
  using calculate_lead_score_Inr calculate_lead_score_returns by blast

lemma calculate_lead_score_empty: "calculate_lead_score [] = Inr 3"
  by (simp add: calculate_lead_score_def get_value_def Let_def)

text \<open>The theorem at the empty answer set, whose score is 3.\<close>

theorem lead_score_in_range_witness:
  "hashable (get_value [] ''timeline_1'') \<and> hashable (get_value [] ''decision_1'') \<and>
   calculate_lead_score [] = Inr 3 \<and> (0::int) \<le> 3 \<and> (3::int) \<le> 100"
proof -
  have h: "hashable (get_value [] ''timeline_1'')" "hashable (get_value [] ''decision_1'')"
    by (simp_all add: get_value_def)
  have e: "calculate_lead_score [] = Inr 3" by (rule calculate_lead_score_empty)
  from lead_score_in_range [of "[]"] h e show ?thesis by simp
qed

lemma first_of_appended:
  "(case (if c then xs @ [p] else xs) of [] \<Rightarrow> d | x # ys \<Rightarrow> x) =
     (case xs of [] \<Rightarrow> (if c then p else d) | x # ys \<Rightarrow> x)"
  by (cases xs) simp_all

lemma identify_persona_chain:
  "identify_persona rs =
     (if get_value rs ''profile_3'' = VStr ''family''
         \<or> py_in (get_value rs ''lifestyle_1'') [''very_important'', ''somewhat'']
      then family_focused
      else if get_value rs ''profile_3'' = VStr ''investment''
         \<or> truthy (get_value rs ''investment_1'')
      then investment_minded
      else if py_in (get_value rs ''budget_1'') [''3.5m_5m'', ''5m_plus'']
         \<and> get_value rs ''property_1'' = VStr ''villa''
      then luxury_seeker
      else if get_value rs ''profile_2'' = VStr ''first_time'' then first_timer
      else if py_in (get_value rs ''budget_1'') [''under_1m'', ''1m_2m'']
         \<and> get_value rs ''profile_3'' \<noteq> VStr ''investment''
      then value_hunter
      else if get_value rs ''profile_2'' = VStr ''owns_property'' then upgrader
      else general_buyer)"
  unfolding identify_persona_def
  by (simp only: Let_def first_of_appended list.case)

lemma persona_types:
  "p_type family_focused = ''family_focused''"
  "p_type investment_minded = ''investment_minded''"
  "p_type luxury_seeker = ''luxury_seeker''"
  "p_type first_timer = ''first_timer''"
  "p_type value_hunter = ''value_hunter''"
  "p_type upgrader = ''upgrader''"
  "p_type general_buyer = ''general_buyer''"
  by (simp_all add: family_focused_def investment_minded_def luxury_seeker_def
        first_timer_def value_hunter_def upgrader_def general_buyer_def)

text \<open>
  C5: the persona is that of the first predicate that holds, in the order
  family_focused, investment_minded, luxury_seeker, first_timer, value_hunter, upgrader,
  and general_buyer when none holds; in particular, it is family_focused whenever
  \<open>profile_3\<close> is "family" or \<open>lifestyle_1\<close> is "very_important" or "somewhat",
  whatever the other answers are.
\<close>

theorem persona_first_match:
  "p_type (identify_persona rs) =
     (if get_value rs ''profile_3'' = VStr ''family''
         \<or> py_in (get_value rs ''lifestyle_1'') [''very_important'', ''somewhat'']
      then ''family_focused''
      else if get_value rs ''profile_3'' = VStr ''investment''
         \<or> truthy (get_value rs ''investment_1'')
      then ''investment_minded''
      else if py_in (get_value rs ''budget_1'') [''3.5m_5m'', ''5m_plus'']
         \<and> get_value rs ''property_1'' = VStr ''villa''
      then ''luxury_seeker''
      else if get_value rs ''profile_2'' = VStr ''first_time'' then ''first_timer''
      else if py_in (get_value rs ''budget_1'') [''under_1m'', ''1m_2m'']
         \<and> get_value rs ''profile_3'' \<noteq> VStr ''investment''
      then ''value_hunter''
      else if get_value rs ''profile_2'' = VStr ''owns_property'' then ''upgrader''
      else ''general_buyer'') \<and>
   (get_value rs ''profile_3'' = VStr ''family''
      \<or> get_value rs ''lifestyle_1'' = VStr ''very_important''
      \<or> get_value rs ''lifestyle_1'' = VStr ''somewhat''
    \<longrightarrow> identify_persona rs = family_focused)"
proof (intro conjI impI)
  show "p_type (identify_persona rs) =
     (if get_value rs ''profile_3'' = VStr ''family''
         \<or> py_in (get_value rs ''lifestyle_1'') [''very_important'', ''somewhat'']
      then ''family_focused''
      else if get_value rs ''profile_3'' = VStr ''investment''
         \<or> truthy (get_value rs ''investment_1'')
      then ''investment_minded''
      else if py_in (get_value rs ''budget_1'') [''3.5m_5m'', ''5m_plus'']
         \<and> get_value rs ''property_1'' = VStr ''villa''
      then ''luxury_seeker''
      else if get_value rs ''profile_2'' = VStr ''first_time'' then ''first_timer''
      else if py_in (get_value rs ''budget_1'') [''under_1m'', ''1m_2m'']
         \<and> get_value rs ''profile_3'' \<noteq> VStr ''investment''
      then ''value_hunter''
      else if get_value rs ''profile_2'' = VStr ''owns_property'' then ''upgrader''
      else ''general_buyer'')"
    by (simp only: identify_persona_chain if_distrib [of p_type] persona_types)
next
  assume "get_value rs ''profile_3'' = VStr ''family''
      \<or> get_value rs ''lifestyle_1'' = VStr ''very_important''
      \<or> get_value rs ''lifestyle_1'' = VStr ''somewhat''"
  then have "get_value rs ''profile_3'' = VStr ''family''
         \<or> py_in (get_value rs ''lifestyle_1'') [''very_important'', ''somewhat'']"
    by auto
  then show "identify_persona rs = family_focused"
    by (simp only: identify_persona_chain if_True)
qed

text \<open>
  The theorem at an answer set that also satisfies the investment and luxury predicates.
\<close>

theorem persona_first_match_witness:
  "get_value [(''profile_3'', \<lparr>ans_value = VStr ''family'', is_other = False,
                 other_text = None, timestamp = 0\<rparr>),
              (''budget_1'', \<lparr>ans_value = VStr ''5m_plus'', is_other = False,
                 other_text = None, timestamp = 0\<rparr>),
              (''property_1'', \<lparr>ans_value = VStr ''villa'', is_other = False,
                 other_text = None, timestamp = 0\<rparr>),
              (''lifestyle_1'', \<lparr>ans_value = VStr ''very_important'', is_other = False,
                 other_text = None, timestamp = 0\<rparr>),
              (''investment_1'', \<lparr>ans_value = VStr ''rental'', is_other = False,
                 other_text = None, timestamp = 0\<rparr>)] ''profile_3'' = VStr ''family'' \<and>
   identify_persona [(''profile_3'', \<lparr>ans_value = VStr ''family'', is_other = False,
                 other_text = None, timestamp = 0\<rparr>),
              (''budget_1'', \<lparr>ans_value = VStr ''5m_plus'', is_other = False,
                 other_text = None, timestamp = 0\<rparr>),
              (''property_1'', \<lparr>ans_value = VStr ''villa'', is_other = False,
                 other_text = None, timestamp = 0\<rparr>),
              (''lifestyle_1'', \<lparr>ans_value = VStr ''very_important'', is_other = False,
                 other_text = None, timestamp = 0\<rparr>),
              (''investment_1'', \<lparr>ans_value = VStr ''rental'', is_other = False,
                 other_text = None, timestamp = 0\<rparr>)] = family_focused"
proof -
  let ?rs = "[(''profile_3'', \<lparr>ans_value = VStr ''family'', is_other = False,
                 other_text = None, timestamp = 0\<rparr>),
              (''budget_1'', \<lparr>ans_value = VStr ''5m_plus'', is_other = False,
                 other_text = None, timestamp = 0\<rparr>),
              (''property_1'', \<lparr>ans_value = VStr ''villa'', is_other = False,
                 other_text = None, timestamp = 0\<rparr>),
              (''lifestyle_1'', \<lparr>ans_value = VStr ''very_important'', is_other = False,
                 other_text = None, timestamp = 0\<rparr>),
              (''investment_1'', \<lparr>ans_value = VStr ''rental'', is_other = False,
                 other_text = None, timestamp = 0\<rparr>)]"
  have h: "get_value ?rs ''profile_3'' = VStr ''family''"
    by (simp add: get_value_def)
  from persona_first_match [of ?rs] h show ?thesis by simp
qed

text \<open>
  The empty answer set yields info_seeker, general_buyer, low urgency and the default
  services; and the categorizer returns whenever the two values it uses as dictionary
  keys are hashable, so a missing answer never makes it raise.
\<close>

lemma categorize_user_empty:
  "\<exists>r. categorize_user [] notes completion_info now = Inr r \<and>
     bt_type (buyer_type r) = ''info_seeker'' \<and>
     p_type (persona r) = ''general_buyer'' \<and>
     u_level (urgency_level r) = ''low'' \<and>
     service_needs r = [''property_matching'', ''viewing_arrangement'']"
  by (simp add: categorize_user_def calculate_lead_score_empty determine_buyer_type_def
        identify_persona_chain determine_urgency_def identify_service_needs_def
        get_value_def general_buyer_def Let_def)

lemma categorize_user_returns:
  assumes "hashable (get_value rs ''timeline_1'')" "hashable (get_value rs ''decision_1'')"
  shows "\<exists>r. categorize_user rs notes completion_info now = Inr r"
proof -
  from calculate_lead_score_returns [OF assms] obtain score
    where "calculate_lead_score rs = Inr score" by blast
  then show ?thesis by (simp add: categorize_user_def Let_def)
qed

text \<open>
  C4 fails on the code: \<open>timeline_scores.get(timeline_response, 0)\<close> hashes the stored
  value, so an answer set whose \<open>timeline_1\<close> value is a list makes \<open>categorize_user\<close>
  raise TypeError instead of returning.
\<close>

theorem categorize_user_unhashable_timeline:
  "categorize_user
     [(''timeline_1'', \<lparr>ans_value = VList [VStr ''asap''], is_other = False,
                          other_text = None, timestamp = 1\<rparr>)]
     []
     \<lparr>sum_responses =
        [(''timeline_1'', \<lparr>ans_value = VList [VStr ''asap''], is_other = False,
                            other_text = None, timestamp = 1\<rparr>)],
      sum_additional_notes = [], sum_skipped_categories = [], sum_is_complete = False\<rparr>
     2 = Inl TypeError"
  by (simp add: categorize_user_def get_value_def calculate_lead_score_timeline_error)

section \<open>Answers submitted after completion\<close>

lemma process_response_complete_raises:
  "is_complete s \<Longrightarrow>
     \<exists>s'. process_response s question_id response isother othertext now = Inl (IndexError, s')"
  by (simp add: process_response_def is_complete_def Let_def)

text \<open>
  C2 fails on the code: once the flow is complete, \<open>process_response\<close> stores the answer,
  increments the question index and then raises IndexError on
  \<open>self.categories[self.current_category_index]\<close>.
\<close>

theorem submit_answer_after_completion_raises:
  "is_complete (run (init_flow 0)
     [SkipCategory ''profile'', SkipCategory ''budget'', SkipCategory ''property'',
      SkipCategory ''location'', SkipCategory ''timeline'', SkipCategory ''lifestyle'',
      SkipCategory ''investment'', SkipCategory ''priorities'', SkipCategory ''decision'',
      SkipCategory ''contact'']) \<and>
   process_response (run (init_flow 0)
     [SkipCategory ''profile'', SkipCategory ''budget'', SkipCategory ''property'',
      SkipCategory ''location'', SkipCategory ''timeline'', SkipCategory ''lifestyle'',
      SkipCategory ''investment'', SkipCategory ''priorities'', SkipCategory ''decision'',
      SkipCategory ''contact''])
     ''contact_2'' (VStr ''morning'') False None 1 =
   Inl (IndexError,
     \<lparr>current_category_index = 10, current_question_index = 1,
      responses = [(''contact_2'', \<lparr>ans_value = VStr ''morning'', is_other = False,
                                      other_text = None, timestamp = 1\<rparr>)],
      additional_notes = [],
      skipped_categories =
        [''profile'', ''budget'', ''property'', ''location'', ''timeline'', ''lifestyle'',
         ''investment'', ''priorities'', ''decision'', ''contact''],
      start_time = 0\<rparr>)"
  by (simp add: run_ten_skips is_complete_def process_response_def catalog_defs)

end
